theory Spec2Isabelle
  imports Main "HOL-Library.Word"
begin

section \<open>The external collaborators, as the adapter sees them\<close>

text \<open>
  \<^verbatim>\<open>spixels-pixel-push.cc\<close> drives three libraries it does not contain: the spixels
  library (\<^verbatim>\<open>led-strip.h\<close>, \<^verbatim>\<open>multi-spi.h\<close>), the PixelPusher server
  (\<^verbatim>\<open>pp-server.h\<close>) and libc. Every call the program makes into them is recorded, in
  program order, in a list of calls: that list is the state of the world outside the
  program. An object a library hands back (a \<^verbatim>\<open>MultiSPI*\<close>, an \<^verbatim>\<open>LEDStrip*\<close>)
  is named by the position of the call that created it, so two objects never share a name.
  C++ \<^verbatim>\<open>int\<close> values are modelled as \<open>int\<close>: the program does no arithmetic on them
  but \<^verbatim>\<open>i+1\<close> below a bound that is itself an \<^verbatim>\<open>int\<close>, and the values it reads from
  its arguments are brought into the range of a 32-bit \<^verbatim>\<open>int\<close> where they are read.
\<close>

type_synonym handle = nat

text \<open>
  \<^verbatim>\<open>typedef spixels::LEDStrip *(*StripFactory)(spixels::MultiSPI *spi, int connector, int count);\<close>
  The four functions of the spixels library the program takes the address of. A null
  function pointer is \<open>None\<close> of \<open>StripFactory option\<close>.
\<close>

datatype StripFactory =
    CreateAPA102Strip
  | CreateWS2801Strip
  | CreateLPD6803Strip
  | CreateLPD8806Strip

text \<open>\<^verbatim>\<open>pp::PixelColor\<close>: the three \<^verbatim>\<open>uint8_t\<close> channels \<^verbatim>\<open>SetPixel\<close> reads.\<close>

record PixelColor =
  red :: "8 word"
  green :: "8 word"
  blue :: "8 word"

text \<open>
  Modelled from the spec: \<^verbatim>\<open>pp::PPOptions\<close> is declared in \<^verbatim>\<open>pp-server.h\<close>, which is not
  among the sources. The fields are the ones \<^verbatim>\<open>main\<close> assigns (section 3 of the spec,
  Configuration: network interface name, UDP packet size, group id, controller id,
  artnet universe and channel).
\<close>

record PPOptions =
  network_interface :: string
  udp_packet_size :: int
  group :: int
  controller :: int
  artnet_universe :: int
  artnet_channel :: int

text \<open>
  \<^verbatim>\<open>class SpixelsDevice\<close>, its four private members (a trailing underscore is not a
  name in Isabelle, so \<^verbatim>\<open>num_strips_\<close> is \<open>m_num_strips\<close>). \<^verbatim>\<open>strips_\<close> is the array
  of \<^verbatim>\<open>LEDStrip*\<close>, \<^verbatim>\<open>spi_\<close> the \<^verbatim>\<open>MultiSPI*\<close>.
\<close>

record SpixelsDevice =
  m_num_strips :: int
  m_strip_len :: int
  m_strips :: "handle list"
  m_spi :: handle

text \<open>
  What the program prints on \<^verbatim>\<open>stderr\<close>, one constructor for each \<^verbatim>\<open>fprintf\<close> site, with
  the format's arguments:
  \<^item> \<open>Usage progname d m\<close>: the text of \<^verbatim>\<open>usage\<close>, with \<^verbatim>\<open>kDefaultUDPPacketSize\<close> and
    \<^verbatim>\<open>kMaxUDPPacketSize\<close>;
  \<^item> \<open>ArtnetParameters\<close>: "Artnet parameters must be <universe>,<channel>";
  \<^item> \<open>InvalidStripType\<close>: "Invalid type of LED strip given with -T";
  \<^item> \<open>ClockOutOfRange\<close>: "SPI clock speed out of range [1..15]";
  \<^item> \<open>MustRunAsRoot progname\<close>: "Must run as root to be able to access /dev/mem ...".
\<close>

datatype diagnostic =
    Usage string int int
  | ArtnetParameters
  | InvalidStripType
  | ClockOutOfRange
  | MustRunAsRoot string

text \<open>
  The calls into the libraries:
  \<^item> \<open>NewMultiSPI mhz\<close>: \<^verbatim>\<open>spixels::CreateDirectMultiSPI(mhz)\<close>;
  \<^item> \<open>NewStrip f spi pin count\<close>: \<^verbatim>\<open>f(spi, pin, count)\<close> for a strip factory \<open>f\<close>;
  \<^item> \<open>StripSetPixel strip pixel r g b\<close>: \<^verbatim>\<open>strip->SetPixel(pixel, r, g, b)\<close>;
  \<^item> \<open>SpiSendBuffers spi\<close>: \<^verbatim>\<open>spi->SendBuffers()\<close>;
  \<^item> \<open>DeleteStrip strip\<close>, \<open>DeleteMultiSPI spi\<close>: the two \<^verbatim>\<open>delete\<close> of the destructor;
  \<^item> \<open>Stderr d\<close>: an \<^verbatim>\<open>fprintf(stderr, ...)\<close>;
  \<^item> \<open>StartServer options device\<close>: \<^verbatim>\<open>pp::StartPixelPusherServer(options, &device)\<close>;
  \<^item> \<open>ShutdownServer\<close>: \<^verbatim>\<open>pp::ShutdownPixelPusherServer()\<close>.
\<close>

datatype call =
    NewMultiSPI int
  | NewStrip StripFactory handle int int
  | StripSetPixel handle int "8 word" "8 word" "8 word"
  | SpiSendBuffers handle
  | DeleteStrip handle
  | DeleteMultiSPI handle
  | Stderr diagnostic
  | StartServer PPOptions SpixelsDevice
  | ShutdownServer

type_synonym world = "call list"

text \<open>
  The ways the program stops without returning from the function at hand:
  \<^item> \<open>BadArrayNewLength\<close>: \<^verbatim>\<open>new spixels::LEDStrip* [ num_strips_ ]\<close> with a negative size
    throws \<^verbatim>\<open>std::bad_array_new_length\<close> (C++11 [expr.new]; older compilers pass the
    size converted to \<^verbatim>\<open>size_t\<close> to \<^verbatim>\<open>operator new[]\<close>, which throws
    \<^verbatim>\<open>std::bad_alloc\<close>). Nothing in the program catches it.
  \<^item> \<open>OutOfBoundsRead\<close>: a read of \<^verbatim>\<open>strips_[i]\<close> past the end of the array, undefined in
    C++.
  Running out of memory for a non-negative size is not modelled.
\<close>

datatype fault = BadArrayNewLength | OutOfBoundsRead

definition CreateDirectMultiSPI :: "int \<Rightarrow> world \<Rightarrow> handle \<times> world" where
  "CreateDirectMultiSPI spi_mhz w = (length w, w @ [NewMultiSPI spi_mhz])"

definition strip_factory_call ::
  "StripFactory \<Rightarrow> handle \<Rightarrow> int \<Rightarrow> int \<Rightarrow> world \<Rightarrow> handle \<times> world" where
  "strip_factory_call f spi connector count w = (length w, w @ [NewStrip f spi connector count])"

section \<open>SpixelsDevice\<close>

text \<open>
  The constructor's loop
  \<^verbatim>\<open>for (int i = 0; i < num_strips_; ++i) strips_[i] = strip_factory(spi_, SPIPinForConnector(i+1), strip_len_);\<close>
  \<^verbatim>\<open>spixels::MultiSPI::SPIPinForConnector\<close> is a static function of the spixels library
  from connector numbers to pins; it is the parameter \<open>SPIPinForConnector\<close>. The array
  is written at \<open>0, 1, 2, ...\<close> in this order, so the model appends.
\<close>

function construct_strips ::
  "(int \<Rightarrow> int) \<Rightarrow> StripFactory \<Rightarrow> handle \<Rightarrow> int \<Rightarrow> int \<Rightarrow> int \<Rightarrow> handle list \<Rightarrow> world
    \<Rightarrow> handle list \<times> world" where
  "construct_strips SPIPinForConnector strip_factory spi num_strips strip_len i strips w =
     (if i < num_strips then
        (case strip_factory_call strip_factory spi (SPIPinForConnector (i + 1)) strip_len w of
           (s, w') \<Rightarrow>
             construct_strips SPIPinForConnector strip_factory spi num_strips strip_len (i + 1)
               (strips @ [s]) w')
      else (strips, w))"
  by pat_completeness auto
termination
  by (relation "measure (\<lambda>(p, f, spi, n, len, i, strips, w). nat (n - i))") auto

declare construct_strips.simps [simp del]

text \<open>
  \<^verbatim>\<open>SpixelsDevice(int spi_mhz, StripFactory strip_factory, int num_strips, int strip_len)\<close>.
  The members are initialised in the order of their declaration: \<^verbatim>\<open>num_strips_\<close>,
  \<^verbatim>\<open>strip_len_\<close>, \<^verbatim>\<open>strips_\<close> (the array allocation), \<^verbatim>\<open>spi_\<close> (the bus); then the loop runs.
\<close>

definition SpixelsDevice_new ::
  "(int \<Rightarrow> int) \<Rightarrow> int \<Rightarrow> StripFactory \<Rightarrow> int \<Rightarrow> int \<Rightarrow> world \<Rightarrow> fault + (SpixelsDevice \<times> world)" where
  "SpixelsDevice_new SPIPinForConnector spi_mhz strip_factory num_strips strip_len w =
     (if num_strips < 0 then Inl BadArrayNewLength
      else
        (case CreateDirectMultiSPI spi_mhz w of
           (spi, w1) \<Rightarrow>
             (case construct_strips SPIPinForConnector strip_factory spi num_strips strip_len 0 [] w1 of
                (strips, w2) \<Rightarrow>
                  Inr (\<lparr>m_num_strips = num_strips, m_strip_len = strip_len,
                         m_strips = strips, m_spi = spi\<rparr>, w2))))"

text \<open>
  \<^verbatim>\<open>~SpixelsDevice()\<close>: every strip in array order, then the bus. (The array itself is
  memory of the program, not a call.)
\<close>

definition SpixelsDevice_delete :: "SpixelsDevice \<Rightarrow> world \<Rightarrow> world" where
  "SpixelsDevice_delete d w = w @ map DeleteStrip (m_strips d) @ [DeleteMultiSPI (m_spi d)]"

definition num_strips :: "SpixelsDevice \<Rightarrow> int" where
  "num_strips d = m_num_strips d"

definition num_pixel_per_strip :: "SpixelsDevice \<Rightarrow> int" where
  "num_pixel_per_strip d = m_strip_len d"

text \<open>
  \<^verbatim>\<open>SetPixel(int strip, int pixel, const ::pp::PixelColor &col)\<close>. The guard returns; past
  it \<^verbatim>\<open>strips_[strip]\<close> is read, which is inside the array when the array has
  \<^verbatim>\<open>num_strips_\<close> elements.
\<close>

definition SetPixel :: "SpixelsDevice \<Rightarrow> int \<Rightarrow> int \<Rightarrow> PixelColor \<Rightarrow> world \<Rightarrow> fault + world" where
  "SetPixel d strip pixel col w =
     (if strip < 0 \<or> strip \<ge> m_num_strips d then Inr w
      else if nat strip < length (m_strips d) then
        Inr (w @ [StripSetPixel (m_strips d ! nat strip) pixel (red col) (green col) (blue col)])
      else Inl OutOfBoundsRead)"

text \<open>\<^verbatim>\<open>FlushFrame()\<close>: \<^verbatim>\<open>spi_->SendBuffers()\<close>.\<close>

definition FlushFrame :: "SpixelsDevice \<Rightarrow> world \<Rightarrow> world" where
  "FlushFrame d w = w @ [SpiSendBuffers (m_spi d)]"

text \<open>
  The \<^verbatim>\<open>pp::OutputDevice\<close> interface as the server uses it: a sequence of calls of the four
  virtual functions on one device. \<open>serve\<close> runs them in order and collects what the two
  queries return.
\<close>

datatype request =
    NumStrips
  | NumPixelPerStrip
  | SetPixelReq int int PixelColor
  | FlushFrameReq

fun serve :: "SpixelsDevice \<Rightarrow> request list \<Rightarrow> world \<Rightarrow> fault + (int list \<times> world)" where
  "serve d [] w = Inr ([], w)"
| "serve d (NumStrips # rs) w =
     (case serve d rs w of Inl e \<Rightarrow> Inl e | Inr (vs, w') \<Rightarrow> Inr (num_strips d # vs, w'))"
| "serve d (NumPixelPerStrip # rs) w =
     (case serve d rs w of Inl e \<Rightarrow> Inl e | Inr (vs, w') \<Rightarrow> Inr (num_pixel_per_strip d # vs, w'))"
| "serve d (SetPixelReq strip pixel col # rs) w =
     (case SetPixel d strip pixel col w of Inl e \<Rightarrow> Inl e | Inr w' \<Rightarrow> serve d rs w')"
| "serve d (FlushFrameReq # rs) w = serve d rs (FlushFrame d w)"

text \<open>
  A device as the constructor leaves it: the array has \<^verbatim>\<open>num_strips_\<close> elements.
\<close>

definition well_formed :: "SpixelsDevice \<Rightarrow> bool" where
  "well_formed d = (0 \<le> m_num_strips d \<and> length (m_strips d) = nat (m_num_strips d))"

text \<open>
  Modelled from the spec: the Strip Driver and the Bus Controller are the spixels library,
  which is not among the sources. Section 3 of the spec: a Strip "owns a per-pixel color
  buffer staged for the next commit"; section 2: the Bus Controller exposes "commit all
  pending per-strip buffers to hardware as a single atomic operation", and there is exactly
  one bus per process. So the bus, as seen from the calls made so far, is the list of
  commits, each carrying the writes staged when it happened, and the writes staged since
  the last commit. A write is the Strip Driver addressed, the pixel and the three channels.
\<close>

type_synonym pixel_write = "handle \<times> int \<times> 8 word \<times> 8 word \<times> 8 word"

record bus_view =
  commits :: "pixel_write list list"
  staged :: "pixel_write list"

fun observe :: "bus_view \<Rightarrow> call \<Rightarrow> bus_view" where
  "observe b (StripSetPixel s pixel r g bl) = b\<lparr>staged := staged b @ [(s, pixel, r, g, bl)]\<rparr>"
| "observe b (SpiSendBuffers spi) = \<lparr>commits = commits b @ [staged b], staged = []\<rparr>"
| "observe b c = b"

definition bus :: "world \<Rightarrow> bus_view" where
  "bus w = foldl observe \<lparr>commits = [], staged = []\<rparr> w"

text \<open>The writes a sequence of \<^verbatim>\<open>SetPixel\<close> calls hands to the Strip Drivers of a device.\<close>

definition forwarded :: "SpixelsDevice \<Rightarrow> (int \<times> int \<times> PixelColor) list \<Rightarrow> pixel_write list" where
  "forwarded d ps =
     map (\<lambda>(strip, pixel, col). (m_strips d ! nat strip, pixel, red col, green col, blue col))
       (filter (\<lambda>(strip, pixel, col). \<not> (strip < 0 \<or> strip \<ge> m_num_strips d)) ps)"

definition set_pixels :: "(int \<times> int \<times> PixelColor) list \<Rightarrow> request list" where
  "set_pixels ps = map (\<lambda>(strip, pixel, col). SetPixelReq strip pixel col) ps"

text \<open>What the two queries of a request sequence return on a device of \<open>n\<close> strips of \<open>len\<close> pixels.\<close>

fun topology_answers :: "int \<Rightarrow> int \<Rightarrow> request list \<Rightarrow> int list" where
  "topology_answers n len [] = []"
| "topology_answers n len (NumStrips # rs) = n # topology_answers n len rs"
| "topology_answers n len (NumPixelPerStrip # rs) = len # topology_answers n len rs"
| "topology_answers n len (r # rs) = topology_answers n len rs"

section \<open>The C library functions the program calls\<close>

text \<open>
  \<^verbatim>\<open>strcasecmp\<close>, \<^verbatim>\<open>atoi\<close> and \<^verbatim>\<open>sscanf\<close> are libc. They are modelled in the "C" locale (the
  program never calls \<^verbatim>\<open>setlocale\<close>), on the bytes of the string before its terminating
  NUL. \<^verbatim>\<open>strcasecmp\<close> returns an integer less than, equal to or greater than 0 (POSIX
  fixes the sign only). The program stores what \<^verbatim>\<open>atoi\<close> and \<^verbatim>\<open>%d\<close> read in a 32-bit
  \<^verbatim>\<open>int\<close>. For a decimal number an \<^verbatim>\<open>int\<close> does not hold, the C standard fixes nothing;
  the model does what glibc does where \<^verbatim>\<open>long\<close> has 64 bits: the number is read by
  \<^verbatim>\<open>strtol\<close>, which stops at \<^verbatim>\<open>LONG_MAX\<close> and \<^verbatim>\<open>LONG_MIN\<close>, and the \<^verbatim>\<open>long\<close> is cast to
  \<^verbatim>\<open>int\<close>, which keeps its low 32 bits.
\<close>

definition tolower :: "char \<Rightarrow> char" where
  "tolower c = (let n = (of_char c :: nat) in if 65 \<le> n \<and> n \<le> 90 then char_of (n + 32) else c)"

definition isspace :: "char \<Rightarrow> bool" where
  "isspace c = (let n = (of_char c :: nat) in n = 32 \<or> (9 \<le> n \<and> n \<le> 13))"

definition isdigit :: "char \<Rightarrow> bool" where
  "isdigit c = (let n = (of_char c :: nat) in 48 \<le> n \<and> n \<le> 57)"

fun strcasecmp :: "string \<Rightarrow> string \<Rightarrow> int" where
  "strcasecmp [] [] = 0"
| "strcasecmp [] (b # bs) = -1"
| "strcasecmp (a # as) [] = 1"
| "strcasecmp (a # as) (b # bs) =
     (if tolower a = tolower b then strcasecmp as bs
      else if (of_char (tolower a) :: nat) < of_char (tolower b) then -1 else 1)"

text \<open>The run of decimal digits at the head of a string: its value and what follows it.\<close>

fun scan_digits :: "int \<Rightarrow> string \<Rightarrow> int \<times> string" where
  "scan_digits acc [] = (acc, [])"
| "scan_digits acc (c # cs) =
     (if isdigit c then scan_digits (acc * 10 + (int (of_char c) - 48)) cs else (acc, c # cs))"

text \<open>
  The conversion \<^verbatim>\<open>%d\<close>: white space is skipped, then an optional sign and at least one
  digit are read. \<open>None\<close> when no number is there.
\<close>

definition scan_d :: "string \<Rightarrow> (int \<times> string) option" where
  "scan_d s =
     (case dropWhile isspace s of
        [] \<Rightarrow> None
      | c # cs \<Rightarrow>
          (let (neg, ds) = (if c = CHR ''-'' then (True, cs)
                            else if c = CHR ''+'' then (False, cs) else (False, c # cs))
           in case ds of
                [] \<Rightarrow> None
              | x # xs \<Rightarrow>
                  if isdigit x then
                    (case scan_digits 0 ds of (v, rest) \<Rightarrow> Some (if neg then - v else v, rest))
                  else None))"

text \<open>\<^verbatim>\<open>strtol\<close> on a number outside \<^verbatim>\<open>long\<close>: \<^verbatim>\<open>LONG_MAX\<close> or \<^verbatim>\<open>LONG_MIN\<close>.\<close>

definition strtol_range :: "int \<Rightarrow> int" where
  "strtol_range v =
     (if v > 9223372036854775807 then 9223372036854775807
      else if v < - 9223372036854775808 then - 9223372036854775808
      else v)"

text \<open>The cast \<^verbatim>\<open>(int)\<close> of a \<^verbatim>\<open>long\<close>: its low 32 bits, read as two's complement.\<close>

definition long_to_int :: "int \<Rightarrow> int" where
  "long_to_int v = (v + 2147483648) mod 4294967296 - 2147483648"

text \<open>
  \<^verbatim>\<open>atoi\<close> is \<^verbatim>\<open>(int) strtol(s, NULL, 10)\<close>: the number at the head of the string, as an
  \<^verbatim>\<open>int\<close>; 0 when there is none.
\<close>

definition atoi :: "string \<Rightarrow> int" where
  "atoi s = (case scan_d s of None \<Rightarrow> 0 | Some (v, rest) \<Rightarrow> long_to_int (strtol_range v))"

text \<open>
  \<^verbatim>\<open>sscanf(s, "%d,%d", &a, &b)\<close>: the values assigned, in order, each stored in an
  \<^verbatim>\<open>int\<close> as \<^verbatim>\<open>atoi\<close> would. Their number is what
  \<^verbatim>\<open>sscanf\<close> returns when it is positive; with no value assigned \<^verbatim>\<open>sscanf\<close> returns 0 or
  \<^verbatim>\<open>EOF\<close>, both different from 2. The comma must follow the first number directly.
\<close>

definition sscanf_d_comma_d :: "string \<Rightarrow> int list" where
  "sscanf_d_comma_d s =
     (case scan_d s of
        None \<Rightarrow> []
      | Some (a, r) \<Rightarrow>
          (case r of
             [] \<Rightarrow> [long_to_int (strtol_range a)]
           | c # r' \<Rightarrow>
               if c = CHR '','' then
                 (case scan_d r' of
                    None \<Rightarrow> [long_to_int (strtol_range a)]
                  | Some (b, r'') \<Rightarrow>
                      [long_to_int (strtol_range a), long_to_int (strtol_range b)])
               else [long_to_int (strtol_range a)]))"

section \<open>Startup\<close>

definition kMaxUDPPacketSize :: int where
  "kMaxUDPPacketSize = 65507"

definition kDefaultUDPPacketSize :: int where
  "kDefaultUDPPacketSize = 1460"

text \<open>\<^verbatim>\<open>usage\<close> prints its text and returns 1.\<close>

definition usage :: "string \<Rightarrow> world \<Rightarrow> int \<times> world" where
  "usage progname w = (1, w @ [Stderr (Usage progname kDefaultUDPPacketSize kMaxUDPPacketSize)])"

text \<open>\<^verbatim>\<open>parseType\<close>; \<open>None\<close> is \<^verbatim>\<open>NULL\<close>.\<close>

definition parseType :: "string \<Rightarrow> StripFactory option" where
  "parseType type =
     (if strcasecmp type ''APA102'' = 0 then Some CreateAPA102Strip
      else if strcasecmp type ''WS2801'' = 0 then Some CreateWS2801Strip
      else if strcasecmp type ''LPD6803'' = 0 then Some CreateLPD6803Strip
      else if strcasecmp type ''LPD8806'' = 0 then Some CreateLPD8806Strip
      else None)"

text \<open>
  Modelled from the spec: the constructor of \<^verbatim>\<open>pp::PPOptions\<close> is in the server library,
  which is not among the sources. The defaults are those of the table of options in
  section 6 of the spec: interface \<^verbatim>\<open>eth0\<close>, packet size 1460, group 0, controller 0,
  artnet disabled (-1, -1).
\<close>

definition PPOptions_new :: PPOptions where
  "PPOptions_new =
     \<lparr>network_interface = ''eth0'', udp_packet_size = 1460, group = 0, controller = 0,
      artnet_universe = - 1, artnet_channel = - 1\<rparr>"

text \<open>The local variables of \<^verbatim>\<open>main\<close> (\<open>num_strips\<close> and \<open>strip_len\<close> with a prefix).\<close>

record main_locals =
  pp_options :: PPOptions
  main_num_strips :: int
  main_strip_len :: int
  SPI_clock_mhz :: int
  strip_creator :: "StripFactory option"

text \<open>
  What \<^verbatim>\<open>main\<close> reads from outside the program: the pin mapping of the spixels library,
  \<^verbatim>\<open>getuid()\<close>, and what \<^verbatim>\<open>pp::StartPixelPusherServer\<close> returns.
\<close>

record environment =
  SPIPinForConnector :: "int \<Rightarrow> int"
  getuid :: nat
  StartPixelPusherServer :: "PPOptions \<Rightarrow> SpixelsDevice \<Rightarrow> bool"

text \<open>
  The body of the \<^verbatim>\<open>switch (opt)\<close>, for one option character and its \<^verbatim>\<open>optarg\<close>:
  \<open>Inr\<close> is \<^verbatim>\<open>break\<close> with the variables as assigned, \<open>Inl\<close> is a \<^verbatim>\<open>return\<close> out of
  \<^verbatim>\<open>main\<close> with its status.
\<close>

definition option_switch ::
  "string \<Rightarrow> char \<Rightarrow> string \<Rightarrow> main_locals \<Rightarrow> world \<Rightarrow> (int \<times> world) + main_locals" where
  "option_switch progname opt optarg l w =
     (if opt = CHR ''T'' then Inr (l\<lparr>strip_creator := parseType optarg\<rparr>)
      else if opt = CHR ''c'' then Inr (l\<lparr>SPI_clock_mhz := atoi optarg\<rparr>)
      else if opt = CHR ''S'' then Inr (l\<lparr>main_num_strips := atoi optarg\<rparr>)
      else if opt = CHR ''L'' then Inr (l\<lparr>main_strip_len := atoi optarg\<rparr>)
      else if opt = CHR ''i'' then
        Inr (l\<lparr>pp_options := (pp_options l)\<lparr>network_interface := optarg\<rparr>\<rparr>)
      else if opt = CHR ''u'' then
        Inr (l\<lparr>pp_options := (pp_options l)\<lparr>udp_packet_size := atoi optarg\<rparr>\<rparr>)
      else if opt = CHR ''G'' then
        Inr (l\<lparr>pp_options := (pp_options l)\<lparr>group := atoi optarg\<rparr>\<rparr>)
      else if opt = CHR ''C'' then
        Inr (l\<lparr>pp_options := (pp_options l)\<lparr>controller := atoi optarg\<rparr>\<rparr>)
      else if opt = CHR ''a'' then
        (case sscanf_d_comma_d optarg of
           [universe, channel] \<Rightarrow>
             Inr (l\<lparr>pp_options :=
                     (pp_options l)\<lparr>artnet_universe := universe, artnet_channel := channel\<rparr>\<rparr>)
         | _ \<Rightarrow> Inl (1, w @ [Stderr ArtnetParameters]))
      else Inl (usage progname w))"

text \<open>
  The loop \<^verbatim>\<open>while ((opt = getopt(argc, argv, "S:L:i:u:a:G:C:T:c:")) != -1) switch (opt) ...\<close>
  \<^verbatim>\<open>getopt\<close> is libc: the model takes what its successive calls return, the option
  character with \<^verbatim>\<open>optarg\<close> (\<open>CHR ''?''\<close> for an option it does not know or one whose
  argument is missing).
\<close>

fun option_loop ::
  "string \<Rightarrow> (char \<times> string) list \<Rightarrow> main_locals \<Rightarrow> world \<Rightarrow> (int \<times> world) + main_locals" where
  "option_loop progname [] l w = Inr l"
| "option_loop progname ((opt, optarg) # rest) l w =
     (case option_switch progname opt optarg l w of
        Inl r \<Rightarrow> Inl r
      | Inr l' \<Rightarrow> option_loop progname rest l' w)"

text \<open>
  \<^verbatim>\<open>for(;;) sleep(INT_MAX);\<close> The loop has no exit: it returns nothing, which is \<open>None\<close>.
\<close>

partial_function (option) sleep_forever :: "unit \<Rightarrow> unit option" where
  "sleep_forever u = sleep_forever u"

text \<open>
  How \<^verbatim>\<open>main\<close> ends: it returns a status, or an exception nobody catches ends the
  process, or it never returns.
\<close>

datatype outcome = Returned int | Uncaught fault | NeverReturns

definition main_locals_init :: main_locals where
  "main_locals_init =
     \<lparr>pp_options = PPOptions_new\<lparr>artnet_universe := - 1, artnet_channel := - 1,
                                  network_interface := ''eth0''\<rparr>,
      main_num_strips = 16, main_strip_len = 144, SPI_clock_mhz = 4,
      strip_creator = Some CreateAPA102Strip\<rparr>"

text \<open>
  \<^verbatim>\<open>main\<close>, from the calls of \<^verbatim>\<open>getopt\<close> on. When the server does not start, \<^verbatim>\<open>return 1\<close>
  leaves the scope of \<^verbatim>\<open>pixel_strips\<close>, so its destructor runs. The one exception the
  constructor can throw comes before its first call, so the process ends with no call made.
\<close>

definition main :: "environment \<Rightarrow> string \<Rightarrow> (char \<times> string) list \<Rightarrow> outcome \<times> world" where
  "main env progname opts =
     (case option_loop progname opts main_locals_init [] of
        Inl (status, w) \<Rightarrow> (Returned status, w)
      | Inr l \<Rightarrow>
          (case strip_creator l of
             None \<Rightarrow> (Returned 1, [Stderr InvalidStripType])
           | Some strip_factory \<Rightarrow>
               if SPI_clock_mhz l < 1 \<or> SPI_clock_mhz l > 15 then
                 (Returned 1, [Stderr ClockOutOfRange])
               else if getuid env \<noteq> 0 then (Returned 1, [Stderr (MustRunAsRoot progname)])
               else
                 (case SpixelsDevice_new (SPIPinForConnector env) (SPI_clock_mhz l) strip_factory
                         (main_num_strips l) (main_strip_len l) [] of
                    Inl e \<Rightarrow> (Uncaught e, [])
                  | Inr (pixel_strips, w) \<Rightarrow>
                      if \<not> StartPixelPusherServer env (pp_options l) pixel_strips then
                        (Returned 1,
                         SpixelsDevice_delete pixel_strips
                           (w @ [StartServer (pp_options l) pixel_strips]))
                      else
                        (case sleep_forever () of
                           None \<Rightarrow> (NeverReturns, w @ [StartServer (pp_options l) pixel_strips])
                         | Some u \<Rightarrow>
                             (Returned 0,
                              SpixelsDevice_delete pixel_strips
                                (w @ [StartServer (pp_options l) pixel_strips, ShutdownServer]))))))"

section \<open>Notions the statements below use\<close>

text \<open>A staged write as the call that makes it.\<close>

definition write_call :: "pixel_write \<Rightarrow> call" where
  "write_call x = (case x of (s, pixel, r, g, bl) \<Rightarrow> StripSetPixel s pixel r g bl)"

text \<open>
  The argument of the last occurrence of an option among the results of \<^verbatim>\<open>getopt\<close>: the
  one whose assignment in the \<^verbatim>\<open>switch\<close> is not overwritten.
\<close>

fun last_optarg :: "char \<Rightarrow> (char \<times> string) list \<Rightarrow> string option" where
  "last_optarg c [] = None"
| "last_optarg c ((opt, optarg) # rest) =
     (case last_optarg c rest of
        Some a \<Rightarrow> Some a
      | None \<Rightarrow> if opt = c then Some optarg else None)"

text \<open>
  An environment for concrete runs: the process is root, the server starts, and the pin
  of connector \<open>k\<close> is \<open>k\<close>.
\<close>

definition root_env :: environment where
  "root_env = \<lparr>SPIPinForConnector = id, getuid = 0, StartPixelPusherServer = (\<lambda>options device. True)\<rparr>"

section \<open>Facts about the model\<close>

lemma write_call_simp [simp]:
  "write_call (s, pixel, r, g, bl) = StripSetPixel s pixel r g bl"
  by (simp add: write_call_def)

lemma construct_strips_eq:
  "i \<le> n \<Longrightarrow> construct_strips p f spi n len i strips w =
     (strips @ [length w ..< length w + nat (n - i)],
      w @ map (\<lambda>k. NewStrip f spi (p k) len) [i + 1..n])"
proof (induction p f spi n len i strips w rule: construct_strips.induct)
  case (1 p f spi n len i strips w)
  show ?case
  proof (cases "i < n")
    case True
    have up: "[i + 1..n] = (i + 1) # [i + 1 + 1..n]"
      using True by (simp add: upto_rec1)
    have nn: "nat (n - i) = Suc (nat (n - (i + 1)))"
      using True by simp
    have hs: "[length w ..< length w + nat (n - i)] =
        length w # [Suc (length w) ..< Suc (length w) + nat (n - (i + 1))]"
      unfolding nn by (simp add: upt_conv_Cons)
    have ih: "construct_strips p f spi n len (i + 1) (strips @ [length w])
          (w @ [NewStrip f spi (p (i + 1)) len]) =
        ((strips @ [length w]) @
           [length (w @ [NewStrip f spi (p (i + 1)) len]) ..<
              length (w @ [NewStrip f spi (p (i + 1)) len]) + nat (n - (i + 1))],
         (w @ [NewStrip f spi (p (i + 1)) len]) @
           map (\<lambda>k. NewStrip f spi (p k) len) [i + 1 + 1..n])"
      using True by (intro "1.IH") (simp_all add: strip_factory_call_def)
    show ?thesis
      using True
      by (subst construct_strips.simps) (simp add: strip_factory_call_def ih up hs)
  next
    case False
    with "1.prems" have "i = n" by simp
    then show ?thesis
      by (subst construct_strips.simps) simp
  qed
qed

lemma SpixelsDevice_new_nonneg:
  assumes "0 \<le> N"
  shows "SpixelsDevice_new p c f N L w =
     Inr (\<lparr>m_num_strips = N, m_strip_len = L,
            m_strips = [Suc (length w) ..< Suc (length w) + nat N], m_spi = length w\<rparr>,
          w @ NewMultiSPI c # map (\<lambda>k. NewStrip f (length w) (p k) L) [1..N])"
  using assms
  by (simp add: SpixelsDevice_new_def CreateDirectMultiSPI_def construct_strips_eq)

lemma SpixelsDevice_new_negative:
  "N < 0 \<Longrightarrow> SpixelsDevice_new p c f N L w = Inl BadArrayNewLength"
  by (simp add: SpixelsDevice_new_def)

lemma SpixelsDevice_new_Inr:
  assumes "SpixelsDevice_new p c f N L w = Inr (d, w')"
  shows "well_formed d \<and> m_num_strips d = N \<and> m_strip_len d = L"
proof (cases "N < 0")
  case True
  with assms show ?thesis by (simp add: SpixelsDevice_new_negative)
next
  case False
  then have "0 \<le> N" by simp
  from SpixelsDevice_new_nonneg [OF this, of p c f L w] assms \<open>0 \<le> N\<close>
  show ?thesis by (auto simp: well_formed_def)
qed

lemma SetPixel_outside: "strip < 0 \<or> m_num_strips d \<le> strip \<Longrightarrow> SetPixel d strip pixel col w = Inr w"
  by (auto simp: SetPixel_def)

lemma SetPixel_inside:
  "well_formed d \<Longrightarrow> 0 \<le> strip \<Longrightarrow> strip < m_num_strips d \<Longrightarrow>
   SetPixel d strip pixel col w =
     Inr (w @ [StripSetPixel (m_strips d ! nat strip) pixel (red col) (green col) (blue col)])"
  by (auto simp: SetPixel_def well_formed_def)

lemma serve_answers:
  "well_formed d \<Longrightarrow>
   \<exists>w'. serve d rs w = Inr (topology_answers (m_num_strips d) (m_strip_len d) rs, w')"
proof (induction d rs w rule: serve.induct)
  case (4 d strip pixel col rs w)
  show ?case
  proof (cases "strip < 0 \<or> m_num_strips d \<le> strip")
    case True
    then have "SetPixel d strip pixel col w = Inr w" by (rule SetPixel_outside)
    with 4 show ?thesis by simp
  next
    case False
    then have "SetPixel d strip pixel col w =
       Inr (w @ [StripSetPixel (m_strips d ! nat strip) pixel (red col) (green col) (blue col)])"
      using "4.prems" by (intro SetPixel_inside) simp_all
    with 4 show ?thesis by simp
  qed
qed (auto simp: num_strips_def num_pixel_per_strip_def)

lemma serve_set_pixels:
  "well_formed d \<Longrightarrow>
   serve d (set_pixels ps @ rs) w = serve d rs (w @ map write_call (forwarded d ps))"
proof (induction ps arbitrary: w)
  case Nil
  then show ?case by (simp add: set_pixels_def forwarded_def)
next
  case (Cons x ps)
  obtain strip pixel col where x: "x = (strip, pixel, col)" by (cases x)
  show ?case
  proof (cases "strip < 0 \<or> m_num_strips d \<le> strip")
    case True
    then have "SetPixel d strip pixel col w = Inr w" by (rule SetPixel_outside)
    moreover have "forwarded d ((strip, pixel, col) # ps) = forwarded d ps"
      using True by (auto simp: forwarded_def)
    moreover have "serve d (set_pixels ps @ rs) w = serve d rs (w @ map write_call (forwarded d ps))"
      using Cons by simp
    ultimately show ?thesis
      using Cons.IH by (simp add: x set_pixels_def)
  next
    case False
    then have sp: "SetPixel d strip pixel col w =
       Inr (w @ [StripSetPixel (m_strips d ! nat strip) pixel (red col) (green col) (blue col)])"
      using Cons.prems by (intro SetPixel_inside) simp_all
    have fw: "forwarded d ((strip, pixel, col) # ps) =
        (m_strips d ! nat strip, pixel, red col, green col, blue col) # forwarded d ps"
      using False by (auto simp: forwarded_def)
    have "serve d (set_pixels ps @ rs)
            (w @ [StripSetPixel (m_strips d ! nat strip) pixel (red col) (green col) (blue col)]) =
          serve d rs ((w @ [StripSetPixel (m_strips d ! nat strip) pixel (red col) (green col) (blue col)])
             @ map write_call (forwarded d ps))"
      using Cons by simp
    then show ?thesis
      using sp by (simp add: x set_pixels_def fw)
  qed
qed

lemma observe_writes:
  "foldl observe b (map write_call ws) = b\<lparr>staged := staged b @ ws\<rparr>"
  by (induction ws arbitrary: b) auto

lemma bus_append: "bus (w @ cs) = foldl observe (bus w) cs"
  by (simp add: bus_def)

lemma bus_writes:
  "bus (w @ map write_call ws) = (bus w)\<lparr>staged := staged (bus w) @ ws\<rparr>"
  by (simp add: bus_append observe_writes)

lemma bus_writes_flush:
  "bus (w @ map write_call ws @ [SpiSendBuffers spi]) =
     \<lparr>commits = commits (bus w) @ [staged (bus w) @ ws], staged = []\<rparr>"
  using bus_append [of "w @ map write_call ws" "[SpiSendBuffers spi]"]
  by (simp add: bus_writes)


lemma sleep_forever_None: "sleep_forever u = None"
proof (cases "sleep_forever u")
  case (Some y)
  have "sleep_forever u = Some y \<Longrightarrow> False"
    by (rule sleep_forever.raw_induct [where P = "\<lambda>x y. False"]) auto
  with Some show ?thesis by simp
qed simp

lemma strcasecmp_0_iff: "strcasecmp a b = 0 \<longleftrightarrow> map tolower a = map tolower b"
  by (induction a b rule: strcasecmp.induct) auto

text \<open>What \<^verbatim>\<open>atoi\<close> and \<^verbatim>\<open>%d\<close> give is an \<^verbatim>\<open>int\<close>; a number an \<^verbatim>\<open>int\<close> holds is read as it is.\<close>

lemma long_to_int_range: "- 2147483648 \<le> long_to_int v \<and> long_to_int v < 2147483648"
  by (simp add: long_to_int_def)

lemma atoi_int_range: "- 2147483648 \<le> atoi s \<and> atoi s < 2147483648"
  by (auto simp: atoi_def long_to_int_range split: option.splits)

lemma long_to_int_id: "- 2147483648 \<le> v \<Longrightarrow> v < 2147483648 \<Longrightarrow> long_to_int (strtol_range v) = v"
  by (simp add: long_to_int_def strtol_range_def)

lemma atoi_beyond_int:
  "atoi ''4294967297'' = 1" "atoi ''2147483648'' = - 2147483648"
  "atoi ''99999999999999999999'' = - 1" "atoi ''-7'' = - 7"
  by (simp_all add: atoi_def scan_d_def strtol_range_def long_to_int_def isspace_def isdigit_def)

lemma sscanf_beyond_int: "sscanf_d_comma_d ''99999999999,1'' = [1215752191, 1]"
  by (simp add: sscanf_d_comma_d_def scan_d_def strtol_range_def long_to_int_def isspace_def isdigit_def)

text \<open>
  The characters \<^verbatim>\<open>tolower\<close> sends to a given one, and with them the strings
  \<^verbatim>\<open>strcasecmp\<close> finds equal to each of the four names, written out.
\<close>

lemma of_char_tolower:
  "(of_char (tolower c) :: nat) =
     (if 65 \<le> (of_char c :: nat) \<and> (of_char c :: nat) \<le> 90 then of_char c + 32 else of_char c)"
  by (simp add: tolower_def Let_def)

lemma tolower_eq_letter:
  assumes "(of_char l :: nat) = of_char u + 32" "65 \<le> (of_char u :: nat)" "(of_char u :: nat) \<le> 90"
  shows "tolower c = l \<longleftrightarrow> c = l \<or> c = u"
proof -
  have "tolower c = l \<longleftrightarrow> (of_char (tolower c) :: nat) = of_char l"
    by simp
  also have "\<dots> \<longleftrightarrow> (of_char c :: nat) = of_char l \<or> (of_char c :: nat) = of_char u"
    using assms by (auto simp: of_char_tolower)
  also have "\<dots> \<longleftrightarrow> c = l \<or> c = u"
    by simp
  finally show ?thesis .
qed

lemma tolower_eq_other:
  assumes "(of_char l :: nat) < 65 \<or> 122 < (of_char l :: nat)"
  shows "tolower c = l \<longleftrightarrow> c = l"
proof -
  have "tolower c = l \<longleftrightarrow> (of_char (tolower c) :: nat) = of_char l"
    by simp
  also have "\<dots> \<longleftrightarrow> (of_char c :: nat) = of_char l"
    using assms by (auto simp: of_char_tolower)
  also have "\<dots> \<longleftrightarrow> c = l"
    by simp
  finally show ?thesis .
qed

lemma tolower_letters:
  "tolower c = CHR ''a'' \<longleftrightarrow> c = CHR ''a'' \<or> c = CHR ''A''"
  "tolower c = CHR ''p'' \<longleftrightarrow> c = CHR ''p'' \<or> c = CHR ''P''"
  "tolower c = CHR ''w'' \<longleftrightarrow> c = CHR ''w'' \<or> c = CHR ''W''"
  "tolower c = CHR ''s'' \<longleftrightarrow> c = CHR ''s'' \<or> c = CHR ''S''"
  "tolower c = CHR ''l'' \<longleftrightarrow> c = CHR ''l'' \<or> c = CHR ''L''"
  "tolower c = CHR ''d'' \<longleftrightarrow> c = CHR ''d'' \<or> c = CHR ''D''"
  by (rule tolower_eq_letter; simp)+

lemma tolower_digits:
  "tolower c = CHR ''0'' \<longleftrightarrow> c = CHR ''0''"
  "tolower c = CHR ''1'' \<longleftrightarrow> c = CHR ''1''"
  "tolower c = CHR ''2'' \<longleftrightarrow> c = CHR ''2''"
  "tolower c = CHR ''3'' \<longleftrightarrow> c = CHR ''3''"
  "tolower c = CHR ''6'' \<longleftrightarrow> c = CHR ''6''"
  "tolower c = CHR ''8'' \<longleftrightarrow> c = CHR ''8''"
  by (rule tolower_eq_other; simp)+

lemma tolower_names:
  "map tolower ''APA102'' = ''apa102''" "map tolower ''WS2801'' = ''ws2801''"
  "map tolower ''LPD6803'' = ''lpd6803''" "map tolower ''LPD8806'' = ''lpd8806''"
  by (simp_all add: tolower_def char_of_def bit_0)

lemma map_tolower_6:
  "map tolower t = [l1, l2, l3, l4, l5, l6] \<longleftrightarrow>
     (\<exists>c1 c2 c3 c4 c5 c6. t = [c1, c2, c3, c4, c5, c6] \<and> tolower c1 = l1 \<and> tolower c2 = l2 \<and>
        tolower c3 = l3 \<and> tolower c4 = l4 \<and> tolower c5 = l5 \<and> tolower c6 = l6)"
  by (auto simp: map_eq_Cons_conv)

lemma map_tolower_7:
  "map tolower t = [l1, l2, l3, l4, l5, l6, l7] \<longleftrightarrow>
     (\<exists>c1 c2 c3 c4 c5 c6 c7. t = [c1, c2, c3, c4, c5, c6, c7] \<and> tolower c1 = l1 \<and>
        tolower c2 = l2 \<and> tolower c3 = l3 \<and> tolower c4 = l4 \<and> tolower c5 = l5 \<and>
        tolower c6 = l6 \<and> tolower c7 = l7)"
  by (auto simp: map_eq_Cons_conv)

lemma spellings_APA102:
  "strcasecmp t ''APA102'' = 0 \<longleftrightarrow>
     t \<in> {''APA102'', ''APa102'', ''ApA102'', ''Apa102'', ''aPA102'', ''aPa102'', ''apA102'', ''apa102''}"
proof -
  have "strcasecmp t ''APA102'' = 0 \<longleftrightarrow>
      (\<exists>c1 c2 c3. t = [c1, c2, c3, CHR ''1'', CHR ''0'', CHR ''2''] \<and>
         (c1 = CHR ''a'' \<or> c1 = CHR ''A'') \<and> (c2 = CHR ''p'' \<or> c2 = CHR ''P'') \<and>
         (c3 = CHR ''a'' \<or> c3 = CHR ''A''))"
    unfolding strcasecmp_0_iff tolower_names map_tolower_6 tolower_letters tolower_digits
    by blast
  also have "\<dots> \<longleftrightarrow>
     t \<in> {''APA102'', ''APa102'', ''ApA102'', ''Apa102'', ''aPA102'', ''aPa102'', ''apA102'', ''apa102''}"
    by auto
  finally show ?thesis .
qed

lemma spellings_WS2801:
  "strcasecmp t ''WS2801'' = 0 \<longleftrightarrow> t \<in> {''WS2801'', ''Ws2801'', ''wS2801'', ''ws2801''}"
proof -
  have "strcasecmp t ''WS2801'' = 0 \<longleftrightarrow>
      (\<exists>c1 c2. t = [c1, c2, CHR ''2'', CHR ''8'', CHR ''0'', CHR ''1''] \<and>
         (c1 = CHR ''w'' \<or> c1 = CHR ''W'') \<and> (c2 = CHR ''s'' \<or> c2 = CHR ''S''))"
    unfolding strcasecmp_0_iff tolower_names map_tolower_6 tolower_letters tolower_digits
    by blast
  also have "\<dots> \<longleftrightarrow> t \<in> {''WS2801'', ''Ws2801'', ''wS2801'', ''ws2801''}"
    by auto
  finally show ?thesis .
qed

lemma spellings_LPD6803:
  "strcasecmp t ''LPD6803'' = 0 \<longleftrightarrow>
     t \<in> {''LPD6803'', ''LPd6803'', ''LpD6803'', ''Lpd6803'',
           ''lPD6803'', ''lPd6803'', ''lpD6803'', ''lpd6803''}"
proof -
  have "strcasecmp t ''LPD6803'' = 0 \<longleftrightarrow>
      (\<exists>c1 c2 c3. t = [c1, c2, c3, CHR ''6'', CHR ''8'', CHR ''0'', CHR ''3''] \<and>
         (c1 = CHR ''l'' \<or> c1 = CHR ''L'') \<and> (c2 = CHR ''p'' \<or> c2 = CHR ''P'') \<and>
         (c3 = CHR ''d'' \<or> c3 = CHR ''D''))"
    unfolding strcasecmp_0_iff tolower_names map_tolower_7 tolower_letters tolower_digits
    by blast
  also have "\<dots> \<longleftrightarrow>
     t \<in> {''LPD6803'', ''LPd6803'', ''LpD6803'', ''Lpd6803'',
           ''lPD6803'', ''lPd6803'', ''lpD6803'', ''lpd6803''}"
    by auto
  finally show ?thesis .
qed

lemma spellings_LPD8806:
  "strcasecmp t ''LPD8806'' = 0 \<longleftrightarrow>
     t \<in> {''LPD8806'', ''LPd8806'', ''LpD8806'', ''Lpd8806'',
           ''lPD8806'', ''lPd8806'', ''lpD8806'', ''lpd8806''}"
proof -
  have "strcasecmp t ''LPD8806'' = 0 \<longleftrightarrow>
      (\<exists>c1 c2 c3. t = [c1, c2, c3, CHR ''8'', CHR ''8'', CHR ''0'', CHR ''6''] \<and>
         (c1 = CHR ''l'' \<or> c1 = CHR ''L'') \<and> (c2 = CHR ''p'' \<or> c2 = CHR ''P'') \<and>
         (c3 = CHR ''d'' \<or> c3 = CHR ''D''))"
    unfolding strcasecmp_0_iff tolower_names map_tolower_7 tolower_letters tolower_digits
    by blast
  also have "\<dots> \<longleftrightarrow>
     t \<in> {''LPD8806'', ''LPd8806'', ''LpD8806'', ''Lpd8806'',
           ''lPD8806'', ''lPd8806'', ''lpD8806'', ''lpd8806''}"
    by auto
  finally show ?thesis .
qed

lemma option_switch_Inl:
  "option_switch progname opt optarg l w = Inl (status, w') \<Longrightarrow>
   status = 1 \<and> (w' = w @ [Stderr ArtnetParameters] \<or>
     w' = w @ [Stderr (Usage progname kDefaultUDPPacketSize kMaxUDPPacketSize)])"
  by (auto simp: option_switch_def usage_def split: if_splits list.splits)

lemma option_loop_Inl:
  "option_loop progname opts l w = Inl (status, w') \<Longrightarrow>
   status = 1 \<and> (w' = w @ [Stderr ArtnetParameters] \<or>
     w' = w @ [Stderr (Usage progname kDefaultUDPPacketSize kMaxUDPPacketSize)])"
proof (induction progname opts l w rule: option_loop.induct)
  case (1 progname l w)
  then show ?case by simp
next
  case (2 progname opt optarg rest l w)
  show ?case
  proof (cases "option_switch progname opt optarg l w")
    case (Inl r)
    with "2.prems" have "option_switch progname opt optarg l w = Inl (status, w')" by simp
    then show ?thesis by (rule option_switch_Inl)
  next
    case (Inr l')
    with 2 show ?thesis by simp
  qed
qed

lemma option_switch_clock:
  "option_switch progname opt optarg l w = Inr l' \<Longrightarrow>
   SPI_clock_mhz l' = (if opt = CHR ''c'' then atoi optarg else SPI_clock_mhz l)"
  by (auto simp: option_switch_def split: if_splits list.splits)

lemma option_switch_type:
  "option_switch progname opt optarg l w = Inr l' \<Longrightarrow>
   strip_creator l' = (if opt = CHR ''T'' then parseType optarg else strip_creator l)"
  by (auto simp: option_switch_def split: if_splits list.splits)

lemma option_switch_artnet:
  "option_switch progname (CHR ''a'') arg l w = Inr l' \<Longrightarrow> length (sscanf_d_comma_d arg) = 2"
  by (auto simp: option_switch_def split: if_splits list.splits)

lemma option_loop_clock:
  "option_loop progname opts l w = Inr l' \<Longrightarrow>
   SPI_clock_mhz l' =
     (case last_optarg (CHR ''c'') opts of None \<Rightarrow> SPI_clock_mhz l | Some a \<Rightarrow> atoi a)"
proof (induction progname opts l w rule: option_loop.induct)
  case (2 progname opt optarg rest l w)
  then show ?case
    by (cases "option_switch progname opt optarg l w")
       (auto dest!: option_switch_clock split: option.splits)
qed simp

lemma option_loop_type:
  "option_loop progname opts l w = Inr l' \<Longrightarrow>
   strip_creator l' =
     (case last_optarg (CHR ''T'') opts of None \<Rightarrow> strip_creator l | Some a \<Rightarrow> parseType a)"
proof (induction progname opts l w rule: option_loop.induct)
  case (2 progname opt optarg rest l w)
  then show ?case
    by (cases "option_switch progname opt optarg l w")
       (auto dest!: option_switch_type split: option.splits)
qed simp

lemma option_loop_artnet:
  "option_loop progname opts l w = Inr l' \<Longrightarrow> (CHR ''a'', arg) \<in> set opts \<Longrightarrow>
   length (sscanf_d_comma_d arg) = 2"
proof (induction progname opts l w rule: option_loop.induct)
  case (2 progname opt optarg rest l w)
  then show ?case
    by (cases "option_switch progname opt optarg l w")
       (auto dest: option_switch_artnet)
qed simp

lemma main_early:
  assumes "option_loop progname opts main_locals_init [] = Inl (status, w)"
  shows "main env progname opts = (Returned 1, w) \<and>
    (w = [Stderr ArtnetParameters] \<or>
     w = [Stderr (Usage progname kDefaultUDPPacketSize kMaxUDPPacketSize)])"
  using option_loop_Inl [OF assms] assms by (auto simp: main_def)

lemma main_no_type:
  assumes "option_loop progname opts main_locals_init [] = Inr l" "strip_creator l = None"
  shows "main env progname opts = (Returned 1, [Stderr InvalidStripType])"
  using assms by (simp add: main_def)

lemma main_bad_clock:
  assumes "option_loop progname opts main_locals_init [] = Inr l" "strip_creator l = Some f"
    "SPI_clock_mhz l < 1 \<or> 15 < SPI_clock_mhz l"
  shows "main env progname opts = (Returned 1, [Stderr ClockOutOfRange])"
  using assms by (auto simp: main_def)

text \<open>The definitions a concrete run of \<^verbatim>\<open>main\<close> unfolds.\<close>

lemmas run_main =
  main_def main_locals_init_def PPOptions_new_def option_switch_def usage_def
  atoi_def scan_d_def strtol_range_def long_to_int_def sscanf_d_comma_d_def isspace_def
  isdigit_def root_env_def

text \<open>
  A clock argument an \<^verbatim>\<open>int\<close> does not hold: \<^verbatim>\<open>-S 1 -c 4294967297\<close> is stored as clock 1,
  which passes the range check, and the bus is created at 1 MHz.
\<close>

lemma main_clock_beyond_int:
  "main root_env ''spixels-pixel-push'' [(CHR ''S'', ''1''), (CHR ''c'', ''4294967297'')] =
     (NeverReturns,
      [NewMultiSPI 1, NewStrip CreateAPA102Strip 0 1 144,
       StartServer
         \<lparr>network_interface = ''eth0'', udp_packet_size = 1460, group = 0, controller = 0,
          artnet_universe = - 1, artnet_channel = - 1\<rparr>
         \<lparr>m_num_strips = 1, m_strip_len = 144, m_strips = [1], m_spi = 0\<rparr>])"
proof -
  have up: "[1..1] = [1::int]" "[Suc 0..<2] = [1]"
    by (simp_all add: upto_rec1 upt_rec)
  show ?thesis
    by (simp add: run_main SpixelsDevice_new_nonneg sleep_forever_None up)
qed

section \<open>The claims\<close>

subsection \<open>The adapter\<close>

text \<open>
  Claim C1. For every device, colour and world: \<^verbatim>\<open>SetPixel\<close> with a strip index below 0 or
  at least \<^verbatim>\<open>num_strips_\<close> returns normally and leaves the world as it was, so no Strip
  Driver is called and no staged write changes. On a device as the constructor leaves it,
  a strip index inside the range makes exactly one call, \<^verbatim>\<open>SetPixel(pixel, red, green, blue)\<close>
  on the Strip Driver stored at that index: the bus sees one more staged write, for that
  driver, and no commit.
\<close>

theorem SetPixel_strip_guard:
  "(strip < 0 \<or> m_num_strips d \<le> strip \<longrightarrow> SetPixel d strip pixel col w = Inr w) \<and>
   (well_formed d \<and> 0 \<le> strip \<and> strip < m_num_strips d \<longrightarrow>
      SetPixel d strip pixel col w =
        Inr (w @ [StripSetPixel (m_strips d ! nat strip) pixel (red col) (green col) (blue col)]) \<and>
      commits (bus (w @ [StripSetPixel (m_strips d ! nat strip) pixel (red col) (green col) (blue col)]))
        = commits (bus w) \<and>
      staged (bus (w @ [StripSetPixel (m_strips d ! nat strip) pixel (red col) (green col) (blue col)]))
        = staged (bus w) @ [(m_strips d ! nat strip, pixel, red col, green col, blue col)])"
  by (simp add: SetPixel_outside SetPixel_inside bus_append)

theorem SetPixel_strip_guard_witness:
  "SetPixel \<lparr>m_num_strips = 2, m_strip_len = 3, m_strips = [1, 2], m_spi = 0\<rparr> 5 0
      \<lparr>red = 1, green = 2, blue = 3\<rparr> [NewMultiSPI 4] = Inr [NewMultiSPI 4] \<and>
   SetPixel \<lparr>m_num_strips = 2, m_strip_len = 3, m_strips = [1, 2], m_spi = 0\<rparr> (- 1) 0
      \<lparr>red = 1, green = 2, blue = 3\<rparr> [NewMultiSPI 4] = Inr [NewMultiSPI 4] \<and>
   well_formed \<lparr>m_num_strips = 2, m_strip_len = 3, m_strips = [1, 2], m_spi = 0\<rparr> \<and>
   SetPixel \<lparr>m_num_strips = 2, m_strip_len = 3, m_strips = [1, 2], m_spi = 0\<rparr> 1 2
      \<lparr>red = 0, green = 255, blue = 0\<rparr> [NewMultiSPI 4] =
     Inr [NewMultiSPI 4, StripSetPixel 2 2 0 255 0]"
  using
    SetPixel_strip_guard [of 5 "\<lparr>m_num_strips = 2, m_strip_len = 3, m_strips = [1, 2], m_spi = 0\<rparr>"
      0 "\<lparr>red = 1, green = 2, blue = 3\<rparr>" "[NewMultiSPI 4]"]
    SetPixel_strip_guard [of "- 1" "\<lparr>m_num_strips = 2, m_strip_len = 3, m_strips = [1, 2], m_spi = 0\<rparr>"
      0 "\<lparr>red = 1, green = 2, blue = 3\<rparr>" "[NewMultiSPI 4]"]
    SetPixel_strip_guard [of 1 "\<lparr>m_num_strips = 2, m_strip_len = 3, m_strips = [1, 2], m_spi = 0\<rparr>"
      2 "\<lparr>red = 0, green = 255, blue = 0\<rparr>" "[NewMultiSPI 4]"]
  by (simp add: well_formed_def)

text \<open>
  Claim C2. On a device as the constructor leaves it, any sequence of \<^verbatim>\<open>SetPixel\<close> calls
  returns normally and only appends the writes it forwards to the Strip Drivers: the list
  of commits of the bus is what it was, the staged writes grow by the forwarded ones. The
  same sequence followed by one \<^verbatim>\<open>FlushFrame\<close> appends after them exactly one
  \<^verbatim>\<open>SendBuffers\<close> on the device's bus: the bus has exactly one more commit, which
  carries every write staged since the commit before, the ones staged before the sequence
  and the ones of the sequence, in order; nothing stays staged.
\<close>

theorem flush_commits_staged_writes_once:
  assumes "well_formed d"
  shows "serve d (set_pixels ps) w = Inr ([], w @ map write_call (forwarded d ps)) \<and>
         commits (bus (w @ map write_call (forwarded d ps))) = commits (bus w) \<and>
         staged (bus (w @ map write_call (forwarded d ps))) = staged (bus w) @ forwarded d ps \<and>
         serve d (set_pixels ps @ [FlushFrameReq]) w =
           Inr ([], w @ map write_call (forwarded d ps) @ [SpiSendBuffers (m_spi d)]) \<and>
         commits (bus (w @ map write_call (forwarded d ps) @ [SpiSendBuffers (m_spi d)])) =
           commits (bus w) @ [staged (bus w) @ forwarded d ps] \<and>
         staged (bus (w @ map write_call (forwarded d ps) @ [SpiSendBuffers (m_spi d)])) = []"
proof -
  have a: "serve d (set_pixels ps) w = Inr ([], w @ map write_call (forwarded d ps))"
    using serve_set_pixels [OF assms, of ps "[]" w] by simp
  have b: "serve d (set_pixels ps @ [FlushFrameReq]) w =
           Inr ([], w @ map write_call (forwarded d ps) @ [SpiSendBuffers (m_spi d)])"
    using serve_set_pixels [OF assms, of ps "[FlushFrameReq]" w] by (simp add: FlushFrame_def)
  show ?thesis
    using a b by (simp add: bus_writes bus_writes_flush)
qed

theorem flush_commits_staged_writes_once_witness:
  "well_formed \<lparr>m_num_strips = 2, m_strip_len = 3, m_strips = [1, 2], m_spi = 0\<rparr> \<and>
   serve \<lparr>m_num_strips = 2, m_strip_len = 3, m_strips = [1, 2], m_spi = 0\<rparr>
     [SetPixelReq 0 1 \<lparr>red = 255, green = 0, blue = 0\<rparr>,
      SetPixelReq 5 0 \<lparr>red = 1, green = 2, blue = 3\<rparr>,
      SetPixelReq 1 2 \<lparr>red = 0, green = 255, blue = 0\<rparr>,
      FlushFrameReq]
     [StripSetPixel 2 0 9 9 9] =
     Inr ([], [StripSetPixel 2 0 9 9 9, StripSetPixel 1 1 255 0 0, StripSetPixel 2 2 0 255 0,
               SpiSendBuffers 0]) \<and>
   commits (bus [StripSetPixel 2 0 9 9 9, StripSetPixel 1 1 255 0 0, StripSetPixel 2 2 0 255 0,
               SpiSendBuffers 0]) = [[(2, 0, 9, 9, 9), (1, 1, 255, 0, 0), (2, 2, 0, 255, 0)]]"
  using flush_commits_staged_writes_once
    [of "\<lparr>m_num_strips = 2, m_strip_len = 3, m_strips = [1, 2], m_spi = 0\<rparr>"
        "[(0, 1, \<lparr>red = 255, green = 0, blue = 0\<rparr>), (5, 0, \<lparr>red = 1, green = 2, blue = 3\<rparr>),
          (1, 2, \<lparr>red = 0, green = 255, blue = 0\<rparr>)]"
        "[StripSetPixel 2 0 9 9 9]"]
  by (simp add: well_formed_def set_pixels_def forwarded_def bus_def)

text \<open>
  Claim C3. When the constructor, given strip count \<open>N\<close> and length \<open>L\<close>, returns a device,
  \<^verbatim>\<open>num_strips()\<close> is \<open>N\<close> and \<^verbatim>\<open>num_pixel_per_strip()\<close> is \<open>L\<close>, and in every sequence of
  calls on that device (queries, \<^verbatim>\<open>SetPixel\<close>, \<^verbatim>\<open>FlushFrame\<close>, in any order and from any
  world) every call returns normally and every query returns \<open>N\<close>, respectively \<open>L\<close>.
\<close>

theorem topology_constant:
  assumes "SpixelsDevice_new p c f N L w = Inr (d, w')"
  shows "num_strips d = N \<and> num_pixel_per_strip d = L \<and>
         (\<exists>w2. serve d rs w1 = Inr (topology_answers N L rs, w2))"
  using SpixelsDevice_new_Inr [OF assms] serve_answers [of d rs w1]
  by (auto simp: num_strips_def num_pixel_per_strip_def)

theorem topology_constant_witness:
  "SpixelsDevice_new id 4 CreateAPA102Strip 2 3 [] =
     Inr (\<lparr>m_num_strips = 2, m_strip_len = 3, m_strips = [1, 2], m_spi = 0\<rparr>,
          [NewMultiSPI 4, NewStrip CreateAPA102Strip 0 1 3, NewStrip CreateAPA102Strip 0 2 3]) \<and>
   num_strips \<lparr>m_num_strips = 2, m_strip_len = 3, m_strips = [1, 2], m_spi = 0\<rparr> = 2 \<and>
   num_pixel_per_strip \<lparr>m_num_strips = 2, m_strip_len = 3, m_strips = [1, 2], m_spi = 0\<rparr> = 3 \<and>
   (\<exists>w2. serve \<lparr>m_num_strips = 2, m_strip_len = 3, m_strips = [1, 2], m_spi = 0\<rparr>
      [NumStrips, SetPixelReq 0 1 \<lparr>red = 255, green = 0, blue = 0\<rparr>, NumPixelPerStrip,
       FlushFrameReq, SetPixelReq 7 7 \<lparr>red = 1, green = 1, blue = 1\<rparr>, NumStrips]
      [NewMultiSPI 4, NewStrip CreateAPA102Strip 0 1 3, NewStrip CreateAPA102Strip 0 2 3] =
      Inr ([2, 3, 2], w2))"
proof -
  have up: "[1..2] = [1, 2::int]" "[Suc 0..<3] = [1, 2]"
    by (simp_all add: upto_rec1 upt_rec)
  have h: "SpixelsDevice_new id 4 CreateAPA102Strip 2 3 [] =
     Inr (\<lparr>m_num_strips = 2, m_strip_len = 3, m_strips = [1, 2], m_spi = 0\<rparr>,
          [NewMultiSPI 4, NewStrip CreateAPA102Strip 0 1 3, NewStrip CreateAPA102Strip 0 2 3])"
    by (simp add: SpixelsDevice_new_nonneg up)
  show ?thesis
    using h topology_constant [OF h,
      of "[NumStrips, SetPixelReq 0 1 \<lparr>red = 255, green = 0, blue = 0\<rparr>, NumPixelPerStrip,
       FlushFrameReq, SetPixelReq 7 7 \<lparr>red = 1, green = 1, blue = 1\<rparr>, NumStrips]"
      "[NewMultiSPI 4, NewStrip CreateAPA102Strip 0 1 3, NewStrip CreateAPA102Strip 0 2 3]"]
    by simp
qed

text \<open>
  Claim C4. Construction with clock rate \<open>c\<close>, strip factory \<open>f\<close>, a strip count \<open>N\<close> (a
  count: not negative) and length \<open>L\<close> makes, in this order, one call
  \<^verbatim>\<open>CreateDirectMultiSPI(c)\<close> and then, for each connector \<open>k\<close> from 1 to \<open>N\<close> in increasing
  order, one call of \<open>f\<close> with the bus that first call returned, the pin
  \<^verbatim>\<open>SPIPinForConnector(k)\<close> and \<open>L\<close>; it makes no other call. The device keeps the bus
  and the \<open>N\<close> Strip Drivers in the order of their creation.
\<close>

theorem construction_calls:
  assumes "0 \<le> N"
  shows "SpixelsDevice_new p c f N L w =
     Inr (\<lparr>m_num_strips = N, m_strip_len = L,
            m_strips = [Suc (length w) ..< Suc (length w) + nat N], m_spi = length w\<rparr>,
          w @ NewMultiSPI c # map (\<lambda>k. NewStrip f (length w) (p k) L) [1..N])"
  using assms by (rule SpixelsDevice_new_nonneg)

theorem construction_calls_witness:
  "(0::int) \<le> 3 \<and>
   SpixelsDevice_new (\<lambda>k. 10 * k) 4 CreateWS2801Strip 3 144 [] =
     Inr (\<lparr>m_num_strips = 3, m_strip_len = 144, m_strips = [1, 2, 3], m_spi = 0\<rparr>,
          [NewMultiSPI 4, NewStrip CreateWS2801Strip 0 10 144, NewStrip CreateWS2801Strip 0 20 144,
           NewStrip CreateWS2801Strip 0 30 144])"
proof -
  have up: "[1..3] = [1, 2, 3::int]" "[Suc 0..<4] = [1, 2, 3]"
    by (simp_all add: upto_rec1 upt_rec)
  have h: "(0::int) \<le> 3" by simp
  show ?thesis
    using construction_calls [OF h, of "\<lambda>k. 10 * k" 4 CreateWS2801Strip 144 "[]"]
    by (simp add: up)
qed

text \<open>
  Claim C10, as amended. The constructor checks neither the strip count \<open>N\<close> nor the length
  \<open>L\<close>. For every \<open>N\<close> that is not negative and every \<open>L\<close>, construction succeeds, creates
  the bus and one Strip Driver for each \<open>i\<close> with \<open>0 \<le> i < N\<close> (none when \<open>N = 0\<close>), and
  the two queries return \<open>N\<close> and \<open>L\<close> as given. For a negative \<open>N\<close> the allocation of the
  array of \<open>N\<close> pointers throws before any library call is made, and no device exists.
  \<^verbatim>\<open>SetPixel\<close> does nothing, for every strip index, on a device whose \<^verbatim>\<open>num_strips_\<close> is
  at most 0.
\<close>

theorem construction_takes_counts_verbatim:
  "(0 \<le> N \<longrightarrow>
      (\<exists>d. SpixelsDevice_new p c f N L w =
              Inr (d, w @ NewMultiSPI c # map (\<lambda>k. NewStrip f (length w) (p k) L) [1..N]) \<and>
           num_strips d = N \<and> num_pixel_per_strip d = L \<and> length (m_strips d) = nat N)) \<and>
   (N < 0 \<longrightarrow> SpixelsDevice_new p c f N L w = Inl BadArrayNewLength) \<and>
   (m_num_strips d' \<le> 0 \<longrightarrow> SetPixel d' strip pixel col w' = Inr w')"
  by (auto simp: SpixelsDevice_new_nonneg SpixelsDevice_new_negative num_strips_def
        num_pixel_per_strip_def SetPixel_def)

theorem construction_takes_counts_verbatim_witness:
  "(\<exists>d. SpixelsDevice_new id 4 CreateAPA102Strip 0 (- 5) [] = Inr (d, [NewMultiSPI 4]) \<and>
        num_strips d = 0 \<and> num_pixel_per_strip d = - 5 \<and> length (m_strips d) = 0) \<and>
   SpixelsDevice_new id 4 CreateAPA102Strip (- 2) 144 [] = Inl BadArrayNewLength \<and>
   SetPixel \<lparr>m_num_strips = 0, m_strip_len = - 5, m_strips = [], m_spi = 0\<rparr> 0 0
     \<lparr>red = 1, green = 2, blue = 3\<rparr> [NewMultiSPI 4] = Inr [NewMultiSPI 4]"
  using
    construction_takes_counts_verbatim [of 0 id 4 CreateAPA102Strip "- 5" "[]"
      "\<lparr>m_num_strips = 0, m_strip_len = - 5, m_strips = [], m_spi = 0\<rparr>" 0 0
      "\<lparr>red = 1, green = 2, blue = 3\<rparr>" "[NewMultiSPI 4]"]
    construction_takes_counts_verbatim [of "- 2" id 4 CreateAPA102Strip 144 "[]"
      "\<lparr>m_num_strips = 0, m_strip_len = - 5, m_strips = [], m_spi = 0\<rparr>" 0 0
      "\<lparr>red = 1, green = 2, blue = 3\<rparr>" "[NewMultiSPI 4]"]
  by simp

text \<open>
  Claim C10 as stated says construction succeeds for a negative strip count too. With
  strip count -1 it does not: the array allocation throws.
\<close>

theorem negative_strip_count_counterexample:
  "SpixelsDevice_new id 4 CreateAPA102Strip (- 1) 144 [] = Inl BadArrayNewLength"
  by (simp add: SpixelsDevice_new_def)

subsection \<open>Startup\<close>

text \<open>
  Claim C5. If the clock rate the options configure (the \<^verbatim>\<open>int\<close> that \<^verbatim>\<open>atoi\<close> gives for the
  argument of the last \<^verbatim>\<open>-c\<close>, which is what \<^verbatim>\<open>SPI_clock_mhz\<close> holds; 4 when there is no
  \<^verbatim>\<open>-c\<close>) is not in 1..15, \<^verbatim>\<open>main\<close> returns 1 and all it has done is print one
  diagnostic: neither \<^verbatim>\<open>CreateDirectMultiSPI\<close> nor a strip factory was called.
\<close>

theorem clock_out_of_range_exits:
  assumes "(case last_optarg (CHR ''c'') opts of None \<Rightarrow> 4 | Some a \<Rightarrow> atoi a) \<notin> {1..15}"
  shows "\<exists>d. main env progname opts = (Returned 1, [Stderr d])"
proof (cases "option_loop progname opts main_locals_init []")
  case (Inl x)
  obtain status w where "x = (status, w)" by (cases x)
  with Inl main_early [of progname opts status w env] show ?thesis by auto
next
  case (Inr l)
  have init: "SPI_clock_mhz main_locals_init = 4"
    by (simp add: main_locals_init_def)
  have "SPI_clock_mhz l = (case last_optarg (CHR ''c'') opts of None \<Rightarrow> 4 | Some a \<Rightarrow> atoi a)"
    using option_loop_clock [OF Inr] by (simp only: init)
  with assms have bad: "SPI_clock_mhz l < 1 \<or> 15 < SPI_clock_mhz l" by auto
  show ?thesis
  proof (cases "strip_creator l")
    case None
    with Inr show ?thesis by (simp add: main_no_type)
  next
    case (Some f)
    with Inr bad show ?thesis by (simp add: main_bad_clock)
  qed
qed

theorem clock_out_of_range_exits_witness:
  "(case last_optarg (CHR ''c'') [(CHR ''c'', ''0'')] of None \<Rightarrow> 4 | Some a \<Rightarrow> atoi a) \<notin> {1..15} \<and>
   main root_env ''spixels-pixel-push'' [(CHR ''c'', ''0'')] = (Returned 1, [Stderr ClockOutOfRange]) \<and>
   (case last_optarg (CHR ''c'') [(CHR ''S'', ''2''), (CHR ''c'', ''16'')] of
      None \<Rightarrow> 4 | Some a \<Rightarrow> atoi a) \<notin> {1..15} \<and>
   main root_env ''spixels-pixel-push'' [(CHR ''S'', ''2''), (CHR ''c'', ''16'')] =
     (Returned 1, [Stderr ClockOutOfRange])"
  using clock_out_of_range_exits [of "[(CHR ''c'', ''0'')]" root_env "''spixels-pixel-push''"]
    clock_out_of_range_exits [of "[(CHR ''S'', ''2''), (CHR ''c'', ''16'')]" root_env
      "''spixels-pixel-push''"]
  by (simp add: run_main)

text \<open>
  Claim C6. If the name given with \<^verbatim>\<open>-T\<close> (the last one, when the option is repeated) is
  one \<^verbatim>\<open>parseType\<close> does not recognise, \<^verbatim>\<open>main\<close> returns 1 and all it has done is print
  one diagnostic: neither \<^verbatim>\<open>CreateDirectMultiSPI\<close> nor a strip factory was called.
\<close>

theorem unknown_strip_type_exits:
  assumes "last_optarg (CHR ''T'') opts = Some name" and "parseType name = None"
  shows "\<exists>d. main env progname opts = (Returned 1, [Stderr d])"
proof (cases "option_loop progname opts main_locals_init []")
  case (Inl x)
  obtain status w where "x = (status, w)" by (cases x)
  with Inl main_early [of progname opts status w env] show ?thesis by auto
next
  case (Inr l)
  have "strip_creator l = None"
    using option_loop_type [OF Inr] assms by simp
  with Inr show ?thesis by (simp add: main_no_type)
qed

theorem unknown_strip_type_exits_witness:
  "last_optarg (CHR ''T'') [(CHR ''T'', ''WS2812''), (CHR ''c'', ''4'')] = Some ''WS2812'' \<and>
   parseType ''WS2812'' = None \<and>
   main root_env ''spixels-pixel-push'' [(CHR ''T'', ''WS2812''), (CHR ''c'', ''4'')] =
     (Returned 1, [Stderr InvalidStripType])"
  using unknown_strip_type_exits [of "[(CHR ''T'', ''WS2812''), (CHR ''c'', ''4'')]" "''WS2812''"
      root_env "''spixels-pixel-push''"]
  by (simp add: run_main parseType_def tolower_def char_of_def bit_0)


text \<open>
  Claim C8. If some \<^verbatim>\<open>-a\<close> among the options has an argument from which
  \<^verbatim>\<open>sscanf(optarg, "%d,%d", ...)\<close> does not assign two integers, \<^verbatim>\<open>main\<close> returns 1 and all it
  has done is print one diagnostic (the artnet message, or the usage text when an unknown
  option comes first): neither \<^verbatim>\<open>CreateDirectMultiSPI\<close> nor a strip factory was called.
\<close>

theorem malformed_artnet_exits:
  assumes "(CHR ''a'', arg) \<in> set opts" and "length (sscanf_d_comma_d arg) \<noteq> 2"
  shows "main env progname opts = (Returned 1, [Stderr ArtnetParameters]) \<or>
         main env progname opts =
           (Returned 1, [Stderr (Usage progname kDefaultUDPPacketSize kMaxUDPPacketSize)])"
proof (cases "option_loop progname opts main_locals_init []")
  case (Inl x)
  obtain status w where "x = (status, w)" by (cases x)
  with Inl main_early [of progname opts status w env] show ?thesis by auto
next
  case (Inr l)
  from option_loop_artnet [OF Inr assms(1)] assms(2) show ?thesis by simp
qed

theorem malformed_artnet_exits_witness:
  "(CHR ''a'', ''5'') \<in> set [(CHR ''S'', ''2''), (CHR ''a'', ''5'')] \<and>
   length (sscanf_d_comma_d ''5'') \<noteq> 2 \<and>
   main root_env ''spixels-pixel-push'' [(CHR ''S'', ''2''), (CHR ''a'', ''5'')] =
     (Returned 1, [Stderr ArtnetParameters])"
  using malformed_artnet_exits [of "''5''" "[(CHR ''S'', ''2''), (CHR ''a'', ''5'')]" root_env
      "''spixels-pixel-push''"]
  by (simp add: run_main)

text \<open>
  Claim C9. \<^verbatim>\<open>parseType\<close> is a function of the name alone (it takes and returns no world:
  it makes no call into any library but \<^verbatim>\<open>strcasecmp\<close>). The names it accepts are, written
  out, every spelling of \<^verbatim>\<open>APA102\<close>, \<^verbatim>\<open>WS2801\<close>, \<^verbatim>\<open>LPD6803\<close> and \<^verbatim>\<open>LPD8806\<close> with each
  letter in either case; each gives the factory of its family, and every other string
  gives the null pointer.
\<close>

theorem parseType_case_insensitive:
  "parseType t =
     (if t \<in> {''APA102'', ''APa102'', ''ApA102'', ''Apa102'',
               ''aPA102'', ''aPa102'', ''apA102'', ''apa102''} then Some CreateAPA102Strip
      else if t \<in> {''WS2801'', ''Ws2801'', ''wS2801'', ''ws2801''} then Some CreateWS2801Strip
      else if t \<in> {''LPD6803'', ''LPd6803'', ''LpD6803'', ''Lpd6803'',
                    ''lPD6803'', ''lPd6803'', ''lpD6803'', ''lpd6803''} then Some CreateLPD6803Strip
      else if t \<in> {''LPD8806'', ''LPd8806'', ''LpD8806'', ''Lpd8806'',
                    ''lPD8806'', ''lPd8806'', ''lpD8806'', ''lpd8806''} then Some CreateLPD8806Strip
      else None)"
  unfolding parseType_def spellings_APA102 spellings_WS2801 spellings_LPD6803 spellings_LPD8806
  by (rule refl)

theorem parseType_case_insensitive_witness:
  "parseType ''apa102'' = Some CreateAPA102Strip \<and> parseType ''ApA102'' = Some CreateAPA102Strip \<and>
   parseType ''ws2801'' = Some CreateWS2801Strip \<and> parseType ''Ws2801'' = Some CreateWS2801Strip \<and>
   parseType ''lpD6803'' = Some CreateLPD6803Strip \<and> parseType ''LPd8806'' = Some CreateLPD8806Strip \<and>
   parseType ''WS2812'' = None \<and> parseType '''' = None \<and> parseType ''APA1022'' = None \<and>
   parseType ''APA10'' = None \<and> parseType ''lpd6806'' = None"
  using parseType_case_insensitive [of "''apa102''"] parseType_case_insensitive [of "''ApA102''"]
    parseType_case_insensitive [of "''ws2801''"] parseType_case_insensitive [of "''Ws2801''"]
    parseType_case_insensitive [of "''lpD6803''"] parseType_case_insensitive [of "''LPd8806''"]
    parseType_case_insensitive [of "''WS2812''"] parseType_case_insensitive [of "''''"]
    parseType_case_insensitive [of "''APA1022''"] parseType_case_insensitive [of "''APA10''"]
    parseType_case_insensitive [of "''lpd6806''"]
  by simp

end
